theory Spec2Isabelle
  imports Main "HOL-Library.Word" "HOL-Library.Sublist"
begin

section \<open>Errors\<close>

text \<open>
  Every Go \<^verbatim>\<open>error\<close> value of the package is one of: an execution error of the
  template engine, an error of an operating-system call (file system, registry, process
  start) given by its code, or the \<^verbatim>\<open>*exec.ExitError\<close> of a process that ran and
  exited with a non-zero status, which carries that status. A Go \<^verbatim>\<open>nil\<close> error is
  \<open>None\<close> of \<open>error option\<close>.
\<close>

datatype error = ExecError string | Errno nat | ExitError nat

section \<open>The template engine, as far as toast.go uses it\<close>

text \<open>
  \<^verbatim>\<open>text/template\<close> executes a parsed template against a Go value that it inspects by
  reflection. The values that reach it here are strings, booleans, slices and structs.
\<close>

datatype val = Str string | Bool bool | Slice "val list" | Struct "(string \<times> val) list"

text \<open>
  The parse tree: literal text, \<^verbatim>\<open>{{.F}}\<close>, \<^verbatim>\<open>{{if .F}} a {{else}} b {{end}}\<close> and
  \<^verbatim>\<open>{{range .F}} body {{end}}\<close>. The template of toast.go has no other action and no
  trim marker, so all white space of the text is kept.
\<close>

datatype node =
    TextNode string
  | ActionNode string
  | IfNode string "node list" "node list"
  | RangeNode string "node list"

text \<open>The source text of a parse tree, to compare a tree with the text it was parsed from.\<close>

fun unparse :: "node \<Rightarrow> string" and unparseList :: "node list \<Rightarrow> string" where
  "unparse (TextNode s) = s"
| "unparse (ActionNode f) = ''{{.'' @ f @ ''}}''"
| "unparse (IfNode f a b) =
     ''{{if .'' @ f @ ''}}'' @ unparseList a @
     (if b = [] then [] else ''{{else}}'' @ unparseList b) @ ''{{end}}''"
| "unparse (RangeNode f body) = ''{{range .'' @ f @ ''}}'' @ unparseList body @ ''{{end}}''"
| "unparseList [] = []"
| "unparseList (x # xs) = unparse x @ unparseList xs"

text \<open>\<^verbatim>\<open>template.IsTrue\<close>: a string or slice is true when it is not empty.\<close>

fun isTrue :: "val \<Rightarrow> bool" where
  "isTrue (Str s) = (s \<noteq> [])"
| "isTrue (Bool b) = b"
| "isTrue (Slice vs) = (vs \<noteq> [])"
| "isTrue (Struct fs) = True"

fun intersperse :: "string \<Rightarrow> string list \<Rightarrow> string" where
  "intersperse sep [] = []"
| "intersperse sep [x] = x"
| "intersperse sep (x # y # ys) = x @ sep @ intersperse sep (y # ys)"

text \<open>
  \<^verbatim>\<open>{{.F}}\<close> prints the value with \<^verbatim>\<open>fmt.Fprint\<close>: a string is written as it is, byte
  for byte; \<^verbatim>\<open>text/template\<close> escapes nothing.
\<close>

fun printValue :: "val \<Rightarrow> string" where
  "printValue (Str s) = s"
| "printValue (Bool b) = (if b then ''true'' else ''false'')"
| "printValue (Slice vs) = ''['' @ intersperse '' '' (map printValue vs) @ '']''"
| "printValue (Struct fs) = ''{'' @ intersperse '' '' (map (\<lambda>(k, v). printValue v) fs) @ ''}''"

text \<open>\<^verbatim>\<open>.F\<close> needs a struct with a field of that name; anything else is an execution error.\<close>

fun evalField :: "val \<Rightarrow> string \<Rightarrow> error + val" where
  "evalField (Struct fs) f =
     (case map_of fs f of Some v \<Rightarrow> Inr v | None \<Rightarrow> Inl (ExecError f))"
| "evalField v f = Inl (ExecError f)"

text \<open>
  The walk over the tree. The output of the nodes is concatenated in order; the first
  error stops the execution.
\<close>

fun walk :: "node \<Rightarrow> val \<Rightarrow> error + string"
  and walkList :: "node list \<Rightarrow> val \<Rightarrow> error + string"
  and walkRange :: "node list \<Rightarrow> val list \<Rightarrow> error + string" where
  "walk (TextNode s) dot = Inr s"
| "walk (ActionNode f) dot =
     (case evalField dot f of Inl e \<Rightarrow> Inl e | Inr v \<Rightarrow> Inr (printValue v))"
| "walk (IfNode f a b) dot =
     (case evalField dot f of
        Inl e \<Rightarrow> Inl e
      | Inr v \<Rightarrow> if isTrue v then walkList a dot else walkList b dot)"
| "walk (RangeNode f body) dot =
     (case evalField dot f of
        Inl e \<Rightarrow> Inl e
      | Inr (Slice vs) \<Rightarrow> walkRange body vs
      | Inr v \<Rightarrow> Inl (ExecError f))"
| "walkList [] dot = Inr []"
| "walkList (x # xs) dot =
     (case walk x dot of
        Inl e \<Rightarrow> Inl e
      | Inr s \<Rightarrow> (case walkList xs dot of Inl e \<Rightarrow> Inl e | Inr r \<Rightarrow> Inr (s @ r)))"
| "walkRange body [] = Inr []"
| "walkRange body (v # vs) =
     (case walkList body v of
        Inl e \<Rightarrow> Inl e
      | Inr s \<Rightarrow> (case walkRange body vs of Inl e \<Rightarrow> Inl e | Inr r \<Rightarrow> Inr (s @ r)))"

text \<open>\<^verbatim>\<open>(*Template).Execute\<close> into a \<^verbatim>\<open>bytes.Buffer\<close>, whose writes cannot fail.\<close>

definition Execute :: "node list \<Rightarrow> val \<Rightarrow> error + string" where
  "Execute t v = walkList t v"

section \<open>The data of the package\<close>

record Action =
  Type :: string
  Label :: string
  Arguments :: string

record Notification =
  AppID :: string
  Title :: string
  Message :: string
  Icon :: string
  Actions :: "Action list"
  Persist :: bool

text \<open>What reflection shows of the two structs: their fields by name.\<close>

definition reflectAction :: "Action \<Rightarrow> val" where
  "reflectAction a =
     Struct [(''Type'', Str (Type a)), (''Label'', Str (Label a)),
             (''Arguments'', Str (Arguments a))]"

definition reflectNotification :: "Notification \<Rightarrow> val" where
  "reflectNotification n =
     Struct [(''AppID'', Str (AppID n)), (''Title'', Str (Title n)),
             (''Message'', Str (Message n)), (''Icon'', Str (Icon n)),
             (''Actions'', Slice (map reflectAction (Actions n))),
             (''Persist'', Bool (Persist n))]"

section \<open>The template\<close>

text \<open>
  The raw string that \<^verbatim>\<open>init\<close> hands to \<^verbatim>\<open>Parse\<close>, one source line per line. It
  starts with the line break after the opening back quote and ends with the four spaces
  before the closing one.
\<close>

definition templateText :: string where
  \<open>templateText =
     ''\<newline>'' @
     ''[Windows.UI.Notifications.ToastNotificationManager, Windows.UI.Notifications, ContentType = WindowsRuntime] | Out-Null\<newline>'' @
     ''[Windows.UI.Notifications.ToastNotification, Windows.UI.Notifications, ContentType = WindowsRuntime] | Out-Null\<newline>'' @
     ''[Windows.Data.Xml.Dom.XmlDocument, Windows.Data.Xml.Dom.XmlDocument, ContentType = WindowsRuntime] | Out-Null\<newline>'' @
     ''\<newline>'' @
     ''$APP_ID = '' @ [CHR 0x27] @ ''{{if .AppID}}{{.AppID}}{{else}}io.github.go-toast.toast{{end}}'' @ [CHR 0x27] @ ''\<newline>'' @
     ''\<newline>'' @
     ''$template = @"\<newline>'' @
     ''<toast>\<newline>'' @
     ''    <visual>\<newline>'' @
     ''        <binding template="ToastGeneric">\<newline>'' @
     ''            {{if .Icon}}\<newline>'' @
     ''            <image placement="appLogoOverride" src="{{.Icon}}" />\<newline>'' @
     ''            {{end}}\<newline>'' @
     ''            {{if .Title}}\<newline>'' @
     ''            <text>{{.Title}}</text>\<newline>'' @
     ''            {{end}}\<newline>'' @
     ''            {{if .Message}}\<newline>'' @
     ''            <text>{{.Message}}</text>\<newline>'' @
     ''            {{end}}\<newline>'' @
     ''        </binding>\<newline>'' @
     ''    </visual>\<newline>'' @
     ''    {{if .Actions}}\<newline>'' @
     ''    <actions>\<newline>'' @
     ''        {{range .Actions}}\<newline>'' @
     ''        <action activationType="{{.Type}}" content="{{.Label}}" arguments="{{.Arguments}}" />\<newline>'' @
     ''        {{end}}\<newline>'' @
     ''    </actions>\<newline>'' @
     ''    {{end}}\<newline>'' @
     ''</toast>\<newline>'' @
     ''"@\<newline>'' @
     ''\<newline>'' @
     ''$xml = New-Object Windows.Data.Xml.Dom.XmlDocument\<newline>'' @
     ''$xml.LoadXml($template)\<newline>'' @
     ''$toast = New-Object Windows.UI.Notifications.ToastNotification $xml\<newline>'' @
     ''[Windows.UI.Notifications.ToastNotificationManager]::CreateToastNotifier($APP_ID).Show($toast)\<newline>'' @
     ''    ''\<close>

text \<open>
  The package variable \<^verbatim>\<open>toastTemplate\<close> after \<^verbatim>\<open>init\<close>: the parse tree of that
  text. Nothing in the package assigns it again.
\<close>

definition toastTemplate :: "node list" where
  \<open>toastTemplate =
   [TextNode (
      ''\<newline>'' @
      ''[Windows.UI.Notifications.ToastNotificationManager, Windows.UI.Notifications, ContentType = WindowsRuntime] | Out-Null\<newline>'' @
      ''[Windows.UI.Notifications.ToastNotification, Windows.UI.Notifications, ContentType = WindowsRuntime] | Out-Null\<newline>'' @
      ''[Windows.Data.Xml.Dom.XmlDocument, Windows.Data.Xml.Dom.XmlDocument, ContentType = WindowsRuntime] | Out-Null\<newline>'' @
      ''\<newline>'' @
      ''$APP_ID = '' @ [CHR 0x27]),
    IfNode ''AppID'' [ActionNode ''AppID''] [TextNode ''io.github.go-toast.toast''],
    TextNode (
      [CHR 0x27] @ ''\<newline>'' @
      ''\<newline>'' @
      ''$template = @"\<newline>'' @
      ''<toast>\<newline>'' @
      ''    <visual>\<newline>'' @
      ''        <binding template="ToastGeneric">\<newline>'' @
      ''            ''),
    IfNode ''Icon''
      [TextNode (''\<newline>'' @ ''            <image placement="appLogoOverride" src="''),
       ActionNode ''Icon'',
       TextNode (''" />\<newline>'' @ ''            '')] [],
    TextNode (''\<newline>'' @ ''            ''),
    IfNode ''Title''
      [TextNode (''\<newline>'' @ ''            <text>''),
       ActionNode ''Title'',
       TextNode (''</text>\<newline>'' @ ''            '')] [],
    TextNode (''\<newline>'' @ ''            ''),
    IfNode ''Message''
      [TextNode (''\<newline>'' @ ''            <text>''),
       ActionNode ''Message'',
       TextNode (''</text>\<newline>'' @ ''            '')] [],
    TextNode (
      ''\<newline>'' @
      ''        </binding>\<newline>'' @
      ''    </visual>\<newline>'' @
      ''    ''),
    IfNode ''Actions''
      [TextNode (''\<newline>'' @ ''    <actions>\<newline>'' @ ''        ''),
       RangeNode ''Actions''
         [TextNode (''\<newline>'' @ ''        <action activationType="''),
          ActionNode ''Type'',
          TextNode ''" content="'',
          ActionNode ''Label'',
          TextNode ''" arguments="'',
          ActionNode ''Arguments'',
          TextNode (''" />\<newline>'' @ ''        '')],
       TextNode (''\<newline>'' @ ''    </actions>\<newline>'' @ ''    '')] [],
    TextNode (
      ''\<newline>'' @
      ''</toast>\<newline>'' @
      ''"@\<newline>'' @
      ''\<newline>'' @
      ''$xml = New-Object Windows.Data.Xml.Dom.XmlDocument\<newline>'' @
      ''$xml.LoadXml($template)\<newline>'' @
      ''$toast = New-Object Windows.UI.Notifications.ToastNotification $xml\<newline>'' @
      ''[Windows.UI.Notifications.ToastNotificationManager]::CreateToastNotifier($APP_ID).Show($toast)\<newline>'' @
      ''    '')]\<close>

section \<open>Rendering\<close>

text \<open>
  \<^verbatim>\<open>buildXML\<close> reads the package variable, here its first argument, and returns
  the Go pair \<^verbatim>\<open>(string, error)\<close>: the empty string with the error when the execution
  fails, the buffer's content with \<^verbatim>\<open>nil\<close> otherwise.
\<close>

definition buildXML :: "node list \<Rightarrow> Notification \<Rightarrow> string \<times> error option" where
  "buildXML tmpl n =
     (case Execute tmpl (reflectNotification n) of
        Inl err \<Rightarrow> ([], Some err)
      | Inr out \<Rightarrow> (out, None))"

section \<open>The operating system\<close>

text \<open>
  What the package touches outside itself: the registry of the current user, the handles
  of the registry keys the process holds open, the files, and the scripts the interpreter
  was run on. A registry key is named by its full path and holds named 32-bit values; the
  nesting of keys is not tracked.
\<close>

record world =
  registry :: "string \<rightharpoonup> (string \<rightharpoonup> 32 word)"
  openKeys :: "(nat \<times> string) list"
  files :: "string \<rightharpoonup> string"
  executed :: "(string list \<times> string) list"

text \<open>
  What the operating system and the libraries decide during one call of \<^verbatim>\<open>Push\<close>:
  the temporary directory; the pair that \<^verbatim>\<open>uuid.NewV4\<close> returns, a pointer that may
  be nil and an error, the identifier being given by the text that its \<^verbatim>\<open>String\<close>
  method prints; whether the registry refuses a call, and with which error; how far the
  write of the file gets; and whether the interpreter starts and with which status it
  exits. These are the failures that the package has to deal with; a call that is not
  listed here fails only for the reason given at its definition.
\<close>

type_synonym UUID = string

datatype WriteFile_outcome = Written | NotCreated error | Truncated nat error

datatype Run_outcome = NotStarted error | Exited nat

record env =
  os_TempDir :: string
  uuid_NewV4 :: "UUID option \<times> error option"
  CreateKey_refused :: "error option"
  SetDWordValue_refused :: "error option"
  DeleteKey_refused :: "error option"
  WriteFile_outcome :: WriteFile_outcome
  Run_outcome :: Run_outcome

text \<open>A call either returns or panics, as the dereference of a nil pointer does.\<close>

datatype 'a outcome = Return 'a | Panic

subsection \<open>Registry\<close>

definition backslash :: string where
  "backslash = [CHR 0x5C]"

text \<open>
  The handle 0 is the zero \<^verbatim>\<open>Key\<close>, which no call accepts; a new handle differs from
  every open one.
\<close>

definition freshKey :: "world \<Rightarrow> nat" where
  "freshKey w = Suc (fold max (map fst (openKeys w)) 0)"

text \<open>
  \<^verbatim>\<open>registry.CreateKey\<close> returns the new handle, whether the key existed, and the
  error. A key that exists is opened as it is; a refused call returns the zero handle.
\<close>

definition CreateKey :: "env \<Rightarrow> string \<Rightarrow> world \<Rightarrow> (nat \<times> bool \<times> error option) \<times> world" where
  "CreateKey e path w =
     (case CreateKey_refused e of
        Some err \<Rightarrow> ((0, False, Some err), w)
      | None \<Rightarrow>
          let k = freshKey w;
              existed = (registry w path \<noteq> None);
              reg = (if existed then registry w else (registry w)(path \<mapsto> Map.empty))
          in ((k, existed, None), w\<lparr>registry := reg, openKeys := (k, path) # openKeys w\<rparr>))"

definition SetDWordValue :: "env \<Rightarrow> nat \<Rightarrow> string \<Rightarrow> 32 word \<Rightarrow> world \<Rightarrow> error option \<times> world" where
  "SetDWordValue e k name v w =
     (case (if k = 0 then None else map_of (openKeys w) k) of
        None \<Rightarrow> (Some (Errno 6), w)
      | Some path \<Rightarrow>
          (case SetDWordValue_refused e of
             Some err \<Rightarrow> (Some err, w)
           | None \<Rightarrow>
               (case registry w path of
                  None \<Rightarrow> (Some (Errno 1018), w)
                | Some vals \<Rightarrow> (None, w\<lparr>registry := (registry w)(path \<mapsto> vals(name \<mapsto> v))\<rparr>))))"

definition Close :: "nat \<Rightarrow> world \<Rightarrow> error option \<times> world" where
  "Close k w =
     (case (if k = 0 then None else map_of (openKeys w) k) of
        None \<Rightarrow> (Some (Errno 6), w)
      | Some path \<Rightarrow> (None, w\<lparr>openKeys := filter (\<lambda>(h, p). h \<noteq> k) (openKeys w)\<rparr>))"

text \<open>\<^verbatim>\<open>registry.DeleteKey\<close> of a key that does not exist is an error and changes nothing.\<close>

definition DeleteKey :: "env \<Rightarrow> string \<Rightarrow> world \<Rightarrow> error option \<times> world" where
  "DeleteKey e path w =
     (case DeleteKey_refused e of
        Some err \<Rightarrow> (Some err, w)
      | None \<Rightarrow>
          (case registry w path of
             None \<Rightarrow> (Some (Errno 2), w)
           | Some vals \<Rightarrow> (None, w\<lparr>registry := (registry w)(path := None)\<rparr>)))"

subsection \<open>Files and processes\<close>

definition filepath_Join :: "string \<Rightarrow> string \<Rightarrow> string" where
  "filepath_Join dir name = (if dir = [] then name else dir @ backslash @ name)"

text \<open>
  \<^verbatim>\<open>ioutil.WriteFile\<close> creates or truncates the file and writes the data. When the
  file cannot be created nothing changes; when the write stops early the file is left
  with the bytes written so far. The permission bits are not tracked.
\<close>

definition WriteFile :: "env \<Rightarrow> string \<Rightarrow> string \<Rightarrow> world \<Rightarrow> error option \<times> world" where
  "WriteFile e file content w =
     (case WriteFile_outcome e of
        Written \<Rightarrow> (None, w\<lparr>files := (files w)(file \<mapsto> content)\<rparr>)
      | NotCreated err \<Rightarrow> (Some err, w)
      | Truncated k err \<Rightarrow> (Some err, w\<lparr>files := (files w)(file \<mapsto> take k content)\<rparr>))"

text \<open>\<^verbatim>\<open>os.Remove\<close> deletes the file; for a file that does not exist it returns an error.\<close>

definition Remove :: "string \<Rightarrow> world \<Rightarrow> error option \<times> world" where
  "Remove file w =
     (case files w file of
        None \<Rightarrow> (Some (Errno 2), w)
      | Some content \<Rightarrow> (None, w\<lparr>files := (files w)(file := None)\<rparr>))"

text \<open>
  \<^verbatim>\<open>(*Cmd).Run\<close> starts the command and waits for it. A process that exits with a
  status other than 0 gives an \<^verbatim>\<open>*exec.ExitError\<close>, which holds the status. A process
  that started is recorded with its arguments and the content of the script file.
\<close>

definition Run :: "env \<Rightarrow> string list \<Rightarrow> string \<Rightarrow> world \<Rightarrow> error option \<times> world" where
  "Run e argv file w =
     (case Run_outcome e of
        NotStarted err \<Rightarrow> (Some err, w)
      | Exited status \<Rightarrow>
          (if status = 0 then None else Some (ExitError status),
           w\<lparr>executed := executed w @ [(argv, case files w file of None \<Rightarrow> [] | Some c \<Rightarrow> c)]\<rparr>))"

section \<open>Showing the notification\<close>

text \<open>
  \<^verbatim>\<open>invokeTemporaryScript\<close>. The error of \<^verbatim>\<open>NewV4\<close> is dropped and \<^verbatim>\<open>id.String()\<close>
  dereferences the pointer, which panics when it is nil, before anything is deferred.
  The deferred \<^verbatim>\<open>os.Remove\<close> runs when the function returns, on each of its three
  returns, and its error is dropped.
\<close>

definition tempFile :: "env \<Rightarrow> UUID \<Rightarrow> string" where
  "tempFile e u = filepath_Join (os_TempDir e) (u @ ''.ps1'')"

definition invokeTemporaryScript :: "env \<Rightarrow> string \<Rightarrow> world \<Rightarrow> error option outcome \<times> world" where
  "invokeTemporaryScript e content w =
     (case fst (uuid_NewV4 e) of
        None \<Rightarrow> (Panic, w)
      | Some u \<Rightarrow>
          let file = tempFile e u;
              (err, w1) = WriteFile e file content w;
              (res, w2) =
                (if err \<noteq> None then (err, w1)
                 else let (err', w') = Run e [''PowerShell'', ''-ExecutionPolicy'', ''Bypass'', ''-File'', file] file w1
                      in if err' \<noteq> None then (err', w') else (None, w'))
          in (Return res, snd (Remove file w2)))"

text \<open>
  \<^verbatim>\<open>Push\<close>. Every result of the registry calls except the handle is dropped, and so
  is the error of \<^verbatim>\<open>buildXML\<close>.
\<close>

definition settingsPath :: string where
  "settingsPath =
     ''SOFTWARE'' @ backslash @ ''Microsoft'' @ backslash @ ''Windows'' @ backslash @
     ''CurrentVersion'' @ backslash @ ''Notifications'' @ backslash @ ''Settings'' @ backslash"

definition Push :: "env \<Rightarrow> node list \<Rightarrow> Notification \<Rightarrow> world \<Rightarrow> error option outcome \<times> world" where
  "Push e tmpl n w =
     (let w1 =
            (if Persist n then
               let ((k, existed, err), wa) = CreateKey e (settingsPath @ AppID n) w;
                   (err1, wb) = SetDWordValue e k ''ShowInActionCenter'' 1 wa;
                   (err2, wc) = Close k wb
               in wc
             else snd (DeleteKey e (settingsPath @ AppID n) w));
          (xml, err) = buildXML tmpl n
      in invokeTemporaryScript e xml w1)"

section \<open>The rendered script, piece by piece\<close>

text \<open>
  The script as the specification describes it: fixed text around an application
  identifier, an optional image element, two optional text elements and an optional block
  of action elements, each field spliced in as it is. \<open>render\<close> is compared with
  \<open>buildXML\<close> below.
\<close>

definition defaultAppID :: string where
  "defaultAppID = ''io.github.go-toast.toast''"

definition scriptHead :: string where
  \<open>scriptHead =
     ''\<newline>'' @
     ''[Windows.UI.Notifications.ToastNotificationManager, Windows.UI.Notifications, ContentType = WindowsRuntime] | Out-Null\<newline>'' @
     ''[Windows.UI.Notifications.ToastNotification, Windows.UI.Notifications, ContentType = WindowsRuntime] | Out-Null\<newline>'' @
     ''[Windows.Data.Xml.Dom.XmlDocument, Windows.Data.Xml.Dom.XmlDocument, ContentType = WindowsRuntime] | Out-Null\<newline>'' @
     ''\<newline>''\<close>

definition appIdDeclaration :: "string \<Rightarrow> string" where
  \<open>appIdDeclaration a =
     ''$APP_ID = '' @ [CHR 0x27] @ (if a = [] then defaultAppID else a) @ [CHR 0x27] @ ''\<newline>''\<close>

definition toastOpen :: string where
  \<open>toastOpen =
     ''\<newline>'' @
     ''$template = @"\<newline>'' @
     ''<toast>\<newline>'' @
     ''    <visual>\<newline>'' @
     ''        <binding template="ToastGeneric">\<newline>'' @
     ''            ''\<close>

definition imageElement :: "string \<Rightarrow> string" where
  \<open>imageElement i =
     (if i = [] then []
      else ''\<newline>            <image placement="appLogoOverride" src="'' @ i @
           ''" />\<newline>            '')\<close>

definition textElement :: "string \<Rightarrow> string" where
  \<open>textElement t =
     (if t = [] then []
      else ''\<newline>            <text>'' @ t @ ''</text>\<newline>            '')\<close>

definition elementGap :: string where
  \<open>elementGap = ''\<newline>            ''\<close>

definition bindingClose :: string where
  \<open>bindingClose =
     ''\<newline>'' @
     ''        </binding>\<newline>'' @
     ''    </visual>\<newline>'' @
     ''    ''\<close>

definition actionElement :: "Action \<Rightarrow> string" where
  \<open>actionElement a =
     ''\<newline>        <action activationType="'' @ Type a @ ''" content="'' @ Label a @
     ''" arguments="'' @ Arguments a @ ''" />\<newline>        ''\<close>

definition actionsBlock :: "Action list \<Rightarrow> string" where
  \<open>actionsBlock as =
     (if as = [] then []
      else ''\<newline>    <actions>\<newline>        '' @ concat (map actionElement as) @
           ''\<newline>    </actions>\<newline>    '')\<close>

definition scriptTail :: string where
  \<open>scriptTail =
     ''\<newline>'' @
     ''</toast>\<newline>'' @
     ''"@\<newline>'' @
     ''\<newline>'' @
     ''$xml = New-Object Windows.Data.Xml.Dom.XmlDocument\<newline>'' @
     ''$xml.LoadXml($template)\<newline>'' @
     ''$toast = New-Object Windows.UI.Notifications.ToastNotification $xml\<newline>'' @
     ''[Windows.UI.Notifications.ToastNotificationManager]::CreateToastNotifier($APP_ID).Show($toast)\<newline>'' @
     ''    ''\<close>

definition visual :: "Notification \<Rightarrow> string" where
  "visual n =
     imageElement (Icon n) @ elementGap @ textElement (Title n) @ elementGap @
     textElement (Message n)"

definition payload :: "Notification \<Rightarrow> string" where
  "payload n = toastOpen @ visual n @ bindingClose @ actionsBlock (Actions n) @ scriptTail"

definition render :: "Notification \<Rightarrow> string" where
  "render n = scriptHead @ appIdDeclaration (AppID n) @ payload n"

section \<open>Counting elements in a script\<close>




section \<open>Example values\<close>

text \<open>The notification of the comment on \<^verbatim>\<open>Push\<close>.\<close>

definition exampleNotification :: Notification where
  "exampleNotification =
     \<lparr>AppID = ''Example App'', Title = ''My notification'',
      Message = ''Some message about how important something is...'',
      Icon = ''go.png'',
      Actions = [\<lparr>Type = ''protocol'', Label = ''I'' @ [CHR 0x27] @ ''m a button'', Arguments = ''''\<rparr>,
                 \<lparr>Type = ''protocol'', Label = ''Me too!'', Arguments = ''''\<rparr>],
      Persist = False\<rparr>"

text \<open>The example of the specification: no application identifier, no icon, one action.\<close>

definition buildNotification :: Notification where
  "buildNotification =
     \<lparr>AppID = '''', Title = ''Build'', Message = ''Done'', Icon = '''',
      Actions = [\<lparr>Type = ''protocol'', Label = ''Open'', Arguments = ''app://open''\<rparr>],
      Persist = True\<rparr>"

text \<open>A notification whose fields hold quotes, angle brackets and an ampersand.\<close>

definition markupNotification :: Notification where
  \<open>markupNotification =
     \<lparr>AppID = ''A&B'', Title = ''<b>"x"</b>'', Message = ''1 < 2 & 3 > 2'',
      Icon = ''a"b.png'',
      Actions = [\<lparr>Type = ''<protocol>'', Label = ''"Open"'', Arguments = ''a&b=<c>''\<rparr>],
      Persist = False\<rparr>\<close>

text \<open>
  A machine on which everything works, and an empty world: no registry key, no open
  handle, no file, nothing run.
\<close>

definition goodEnv :: env where
  "goodEnv =
     \<lparr>os_TempDir = ''C:'' @ backslash @ ''Temp'',
      uuid_NewV4 = (Some ''6ba7b810-9dad-41d1-80b4-00c04fd430c8'', None),
      CreateKey_refused = None, SetDWordValue_refused = None, DeleteKey_refused = None,
      WriteFile_outcome = Written, Run_outcome = Exited 0\<rparr>"

definition emptyWorld :: world where
  "emptyWorld = \<lparr>registry = Map.empty, openKeys = [], files = Map.empty, executed = []\<rparr>"


section \<open>The template is the text of the source\<close>

lemma toastTemplate_unparse: "unparseList toastTemplate = templateText"
  by (simp add: toastTemplate_def templateText_def)

section \<open>What the template engine writes for the template\<close>

lemma walkRange_actions:
  \<open>walkRange
     [TextNode ''\<newline>        <action activationType="'',
      ActionNode ''Type'',
      TextNode ''" content="'',
      ActionNode ''Label'',
      TextNode ''" arguments="'',
      ActionNode ''Arguments'',
      TextNode ''" />\<newline>        '']
     (map reflectAction as) = Inr (concat (map actionElement as))\<close>
  by (induction as) (simp_all add: reflectAction_def actionElement_def)

lemma walk_AppID_node:
  "walk (IfNode ''AppID'' [ActionNode ''AppID''] [TextNode ''io.github.go-toast.toast''])
     (reflectNotification n) = Inr (if AppID n = [] then defaultAppID else AppID n)"
  by (simp add: reflectNotification_def defaultAppID_def)

lemma walk_Icon:
  \<open>walk (IfNode ''Icon''
      [TextNode ''\<newline>            <image placement="appLogoOverride" src="'',
       ActionNode ''Icon'',
       TextNode ''" />\<newline>            ''] [])
     (reflectNotification n) = Inr (imageElement (Icon n))\<close>
  by (simp add: reflectNotification_def imageElement_def)

lemma walk_Title:
  \<open>walk (IfNode ''Title''
      [TextNode ''\<newline>            <text>'',
       ActionNode ''Title'',
       TextNode ''</text>\<newline>            ''] [])
     (reflectNotification n) = Inr (textElement (Title n))\<close>
  by (simp add: reflectNotification_def textElement_def)

lemma walk_Message:
  \<open>walk (IfNode ''Message''
      [TextNode ''\<newline>            <text>'',
       ActionNode ''Message'',
       TextNode ''</text>\<newline>            ''] [])
     (reflectNotification n) = Inr (textElement (Message n))\<close>
  by (simp add: reflectNotification_def textElement_def)

lemma walk_Actions:
  \<open>walk (IfNode ''Actions''
      [TextNode ''\<newline>    <actions>\<newline>        '',
       RangeNode ''Actions''
         [TextNode ''\<newline>        <action activationType="'',
          ActionNode ''Type'',
          TextNode ''" content="'',
          ActionNode ''Label'',
          TextNode ''" arguments="'',
          ActionNode ''Arguments'',
          TextNode ''" />\<newline>        ''],
       TextNode ''\<newline>    </actions>\<newline>    ''] [])
     (reflectNotification n) = Inr (actionsBlock (Actions n))\<close>
  by (simp add: reflectNotification_def actionsBlock_def walkRange_actions)

lemma Execute_toastTemplate: "Execute toastTemplate (reflectNotification n) = Inr (render n)"
  unfolding Execute_def toastTemplate_def render_def payload_def visual_def
  by (simp add: walk_AppID_node walk_Icon walk_Title walk_Message walk_Actions
      scriptHead_def appIdDeclaration_def toastOpen_def elementGap_def bindingClose_def
      scriptTail_def del: walk.simps(2-4))

lemma buildXML_render: "buildXML toastTemplate n = (render n, None)"
  by (simp add: buildXML_def Execute_toastTemplate)


text \<open>
  The example of the specification, in full: one title, one message, one action, no
  image, and the default identifier.
\<close>

lemma buildNotification_script:
  \<open>buildXML toastTemplate buildNotification =
    (''\<newline>'' @
     ''[Windows.UI.Notifications.ToastNotificationManager, Windows.UI.Notifications, ContentType = WindowsRuntime] | Out-Null\<newline>'' @
     ''[Windows.UI.Notifications.ToastNotification, Windows.UI.Notifications, ContentType = WindowsRuntime] | Out-Null\<newline>'' @
     ''[Windows.Data.Xml.Dom.XmlDocument, Windows.Data.Xml.Dom.XmlDocument, ContentType = WindowsRuntime] | Out-Null\<newline>'' @
     ''\<newline>'' @
     ''$APP_ID = '' @ [CHR 0x27] @ ''io.github.go-toast.toast'' @ [CHR 0x27] @ ''\<newline>'' @
     ''\<newline>'' @
     ''$template = @"\<newline>'' @
     ''<toast>\<newline>'' @
     ''    <visual>\<newline>'' @
     ''        <binding template="ToastGeneric">\<newline>'' @
     ''            \<newline>'' @
     ''            \<newline>'' @
     ''            <text>Build</text>\<newline>'' @
     ''            \<newline>'' @
     ''            \<newline>'' @
     ''            <text>Done</text>\<newline>'' @
     ''            \<newline>'' @
     ''        </binding>\<newline>'' @
     ''    </visual>\<newline>'' @
     ''    \<newline>'' @
     ''    <actions>\<newline>'' @
     ''        \<newline>'' @
     ''        <action activationType="protocol" content="Open" arguments="app://open" />\<newline>'' @
     ''        \<newline>'' @
     ''    </actions>\<newline>'' @
     ''    \<newline>'' @
     ''</toast>\<newline>'' @
     ''"@\<newline>'' @
     ''\<newline>'' @
     ''$xml = New-Object Windows.Data.Xml.Dom.XmlDocument\<newline>'' @
     ''$xml.LoadXml($template)\<newline>'' @
     ''$toast = New-Object Windows.UI.Notifications.ToastNotification $xml\<newline>'' @
     ''[Windows.UI.Notifications.ToastNotificationManager]::CreateToastNotifier($APP_ID).Show($toast)\<newline>'' @
     ''    '',
     None)\<close>
  by (simp add: buildXML_render render_def payload_def visual_def scriptHead_def
      appIdDeclaration_def defaultAppID_def toastOpen_def imageElement_def textElement_def
      elementGap_def bindingClose_def actionsBlock_def actionElement_def scriptTail_def
      buildNotification_def)

section \<open>Counting the elements of a script whose fields hold no markup\<close>














section \<open>Claims about rendering\<close>

lemma sublist_within: "s = ps @ t @ ss \<Longrightarrow> sublist t s"
  by (auto simp: sublist_def)

lemma actionElement_within:
  assumes "a \<in> set as"
  shows \<open>\<exists>ps ss. concat (map actionElement as) =
           ps @ (''<action activationType="'' @ Type a @ ''" content="'' @ Label a @
                 ''" arguments="'' @ Arguments a @ ''" />'') @ ss\<close>
proof -
  from assms obtain xs ys where as: "as = xs @ a # ys"
    by (auto dest: split_list)
  show ?thesis
    unfolding as
    apply (rule exI [of _ "concat (map actionElement xs) @ ''\<newline>        ''"])
    apply (rule exI [of _ "''\<newline>        '' @ concat (map actionElement ys)"])
    apply (simp add: actionElement_def)
    done
qed





text \<open>
  Claim C4. The line that declares \<^verbatim>\<open>$APP_ID\<close> holds the fixed identifier
  \<^verbatim>\<open>io.github.go-toast.toast\<close> when \<open>AppID\<close> is empty and \<open>AppID\<close> itself otherwise.
\<close>

theorem app_identifier_default:
  \<open>fst (buildXML toastTemplate n) =
     scriptHead @
     ''$APP_ID = '' @ [CHR 0x27] @
       (if AppID n = [] then ''io.github.go-toast.toast'' else AppID n) @ [CHR 0x27] @
     ''\<newline>'' @
     payload n\<close>
  by (simp add: buildXML_render render_def appIdDeclaration_def defaultAppID_def)

text \<open>
  Claim C5. Nothing is escaped or changed: the script is the fixed text with the fields
  spliced in as they are, so every field that is not empty, and the three fields of every
  action, stand in the script character for character inside their markup, whatever
  characters they hold.
\<close>

theorem fields_verbatim:
  \<open>fst (buildXML toastTemplate n) = render n \<and>
   (AppID n \<noteq> [] \<longrightarrow>
      sublist (''$APP_ID = '' @ [CHR 0x27] @ AppID n @ [CHR 0x27])
        (fst (buildXML toastTemplate n))) \<and>
   (Icon n \<noteq> [] \<longrightarrow>
      sublist (''<image placement="appLogoOverride" src="'' @ Icon n @ ''" />'')
        (fst (buildXML toastTemplate n))) \<and>
   (Title n \<noteq> [] \<longrightarrow>
      sublist (''<text>'' @ Title n @ ''</text>'') (fst (buildXML toastTemplate n))) \<and>
   (Message n \<noteq> [] \<longrightarrow>
      sublist (''<text>'' @ Message n @ ''</text>'') (fst (buildXML toastTemplate n))) \<and>
   (\<forall>a \<in> set (Actions n).
      sublist (''<action activationType="'' @ Type a @ ''" content="'' @ Label a @
               ''" arguments="'' @ Arguments a @ ''" />'')
        (fst (buildXML toastTemplate n)))\<close>
proof (intro conjI impI ballI)
  show "fst (buildXML toastTemplate n) = render n"
    by (simp add: buildXML_render)
next
  assume "AppID n \<noteq> []"
  then have "render n = scriptHead @ (''$APP_ID = '' @ [CHR 0x27] @ AppID n @ [CHR 0x27]) @
      (''\<newline>'' @ payload n)"
    by (simp add: render_def appIdDeclaration_def)
  then show "sublist (''$APP_ID = '' @ [CHR 0x27] @ AppID n @ [CHR 0x27])
      (fst (buildXML toastTemplate n))"
    unfolding buildXML_render fst_conv by (rule sublist_within)
next
  assume "Icon n \<noteq> []"
  then have \<open>render n =
      (scriptHead @ appIdDeclaration (AppID n) @ toastOpen @ ''\<newline>            '') @
      (''<image placement="appLogoOverride" src="'' @ Icon n @ ''" />'') @
      (''\<newline>            '' @ elementGap @ textElement (Title n) @ elementGap @
       textElement (Message n) @ bindingClose @ actionsBlock (Actions n) @ scriptTail)\<close>
    by (simp add: render_def payload_def visual_def imageElement_def)
  then show \<open>sublist (''<image placement="appLogoOverride" src="'' @ Icon n @ ''" />'')
      (fst (buildXML toastTemplate n))\<close>
    unfolding buildXML_render fst_conv by (rule sublist_within)
next
  assume "Title n \<noteq> []"
  then have \<open>render n =
      (scriptHead @ appIdDeclaration (AppID n) @ toastOpen @ imageElement (Icon n) @
       elementGap @ ''\<newline>            '') @
      (''<text>'' @ Title n @ ''</text>'') @
      (''\<newline>            '' @ elementGap @
       textElement (Message n) @ bindingClose @ actionsBlock (Actions n) @ scriptTail)\<close>
    by (simp add: render_def payload_def visual_def textElement_def)
  then show \<open>sublist (''<text>'' @ Title n @ ''</text>'') (fst (buildXML toastTemplate n))\<close>
    unfolding buildXML_render fst_conv by (rule sublist_within)
next
  assume "Message n \<noteq> []"
  then have \<open>render n =
      (scriptHead @ appIdDeclaration (AppID n) @ toastOpen @ imageElement (Icon n) @
       elementGap @ textElement (Title n) @ elementGap @ ''\<newline>            '') @
      (''<text>'' @ Message n @ ''</text>'') @
      (''\<newline>            '' @ bindingClose @ actionsBlock (Actions n) @ scriptTail)\<close>
    by (simp add: render_def payload_def visual_def textElement_def)
  then show \<open>sublist (''<text>'' @ Message n @ ''</text>'') (fst (buildXML toastTemplate n))\<close>
    unfolding buildXML_render fst_conv by (rule sublist_within)
next
  fix a assume a: "a \<in> set (Actions n)"
  then obtain ps ss where \<open>concat (map actionElement (Actions n)) =
      ps @ (''<action activationType="'' @ Type a @ ''" content="'' @ Label a @
            ''" arguments="'' @ Arguments a @ ''" />'') @ ss\<close>
    using actionElement_within by blast
  moreover from a have "Actions n \<noteq> []" by auto
  ultimately have \<open>render n =
      (scriptHead @ appIdDeclaration (AppID n) @ toastOpen @ visual n @ bindingClose @
       ''\<newline>    <actions>\<newline>        '' @ ps) @
      (''<action activationType="'' @ Type a @ ''" content="'' @ Label a @
       ''" arguments="'' @ Arguments a @ ''" />'') @
      (ss @ ''\<newline>    </actions>\<newline>    '' @ scriptTail)\<close>
    by (simp add: render_def payload_def actionsBlock_def)
  then show \<open>sublist (''<action activationType="'' @ Type a @ ''" content="'' @ Label a @
               ''" arguments="'' @ Arguments a @ ''" />'') (fst (buildXML toastTemplate n))\<close>
    unfolding buildXML_render fst_conv by (rule sublist_within)
qed

theorem fields_verbatim_witness:
  \<open>AppID markupNotification \<noteq> [] \<and> Icon markupNotification \<noteq> [] \<and>
   Title markupNotification \<noteq> [] \<and> Message markupNotification \<noteq> [] \<and>
   set (Actions markupNotification) =
     {\<lparr>Type = ''<protocol>'', Label = ''"Open"'', Arguments = ''a&b=<c>''\<rparr>} \<and>
   sublist (''$APP_ID = '' @ [CHR 0x27] @ ''A&B'' @ [CHR 0x27])
     (fst (buildXML toastTemplate markupNotification)) \<and>
   sublist ''<image placement="appLogoOverride" src="a"b.png" />''
     (fst (buildXML toastTemplate markupNotification)) \<and>
   sublist ''<text><b>"x"</b></text>'' (fst (buildXML toastTemplate markupNotification)) \<and>
   sublist ''<text>1 < 2 & 3 > 2</text>'' (fst (buildXML toastTemplate markupNotification)) \<and>
   sublist ''<action activationType="<protocol>" content=""Open"" arguments="a&b=<c>" />''
     (fst (buildXML toastTemplate markupNotification))\<close>
proof -
  have fields:
    \<open>AppID markupNotification = ''A&B''\<close>
    \<open>Icon markupNotification = ''a"b.png''\<close>
    \<open>Title markupNotification = ''<b>"x"</b>''\<close>
    \<open>Message markupNotification = ''1 < 2 & 3 > 2''\<close>
    \<open>Actions markupNotification =
       [\<lparr>Type = ''<protocol>'', Label = ''"Open"'', Arguments = ''a&b=<c>''\<rparr>]\<close>
    by (simp_all add: markupNotification_def)
  from fields_verbatim [of markupNotification] show ?thesis
    by (auto simp add: fields)
qed

text \<open>
  Claim C9. Rendering is a function of the request alone: two requests with equal
  \<open>AppID\<close>, \<open>Title\<close>, \<open>Message\<close>, \<open>Icon\<close> and \<open>Actions\<close> give the same pair of script and
  error, whatever their \<open>Persist\<close>. \<open>buildXML\<close> reads the template and the request and
  writes to its own buffer only, so it takes no world and returns none.
\<close>

theorem rendering_deterministic:
  assumes "AppID n1 = AppID n2" and "Title n1 = Title n2" and "Message n1 = Message n2"
    and "Icon n1 = Icon n2" and "Actions n1 = Actions n2"
  shows "buildXML toastTemplate n1 = buildXML toastTemplate n2"
  using assms by (simp add: buildXML_render render_def payload_def visual_def)

theorem rendering_deterministic_witness:
  "AppID exampleNotification = AppID (exampleNotification\<lparr>Persist := True\<rparr>) \<and>
   Title exampleNotification = Title (exampleNotification\<lparr>Persist := True\<rparr>) \<and>
   Message exampleNotification = Message (exampleNotification\<lparr>Persist := True\<rparr>) \<and>
   Icon exampleNotification = Icon (exampleNotification\<lparr>Persist := True\<rparr>) \<and>
   Actions exampleNotification = Actions (exampleNotification\<lparr>Persist := True\<rparr>) \<and>
   buildXML toastTemplate exampleNotification =
     buildXML toastTemplate (exampleNotification\<lparr>Persist := True\<rparr>)"
  using rendering_deterministic [of exampleNotification "exampleNotification\<lparr>Persist := True\<rparr>"]
  by simp

section \<open>Facts about the operating-system calls\<close>

lemma fold_max_ge: "m \<le> fold max xs (m::nat)"
  by (induction xs arbitrary: m) (auto intro: order_trans [OF max.cobounded2])

lemma fold_max_mem: "x \<in> set xs \<Longrightarrow> x \<le> fold max xs (m::nat)"
proof (induction xs arbitrary: m)
  case Nil
  then show ?case by simp
next
  case (Cons y ys)
  show ?case
  proof (cases "x = y")
    case True
    have "max y m \<le> fold max ys (max y m)" by (rule fold_max_ge)
    with True show ?thesis by simp
  next
    case False
    with Cons show ?thesis by simp
  qed
qed

lemma freshKey_above: "(k, p) \<in> set (openKeys w) \<Longrightarrow> k < freshKey w"
proof -
  assume "(k, p) \<in> set (openKeys w)"
  then have "k \<in> set (map fst (openKeys w))" by force
  then have "k \<le> fold max (map fst (openKeys w)) 0" by (rule fold_max_mem)
  then show ?thesis by (simp add: freshKey_def)
qed

lemma freshKey_pos: "freshKey w \<noteq> 0"
  by (simp add: freshKey_def)

lemma filter_freshKey:
  "filter (\<lambda>(h, p). h \<noteq> freshKey w) (openKeys w) = openKeys w"
  by (rule filter_True) (auto dest: freshKey_above)

lemma invoke_fst:
  "fst (invokeTemporaryScript e content w) =
     (case fst (uuid_NewV4 e) of
        None \<Rightarrow> Panic
      | Some u \<Rightarrow>
          Return (case WriteFile_outcome e of
                    NotCreated err \<Rightarrow> Some err
                  | Truncated k err \<Rightarrow> Some err
                  | Written \<Rightarrow>
                      (case Run_outcome e of
                         NotStarted err \<Rightarrow> Some err
                       | Exited s \<Rightarrow> if s = 0 then None else Some (ExitError s))))"
  by (simp add: invokeTemporaryScript_def WriteFile_def Run_def Let_def
      split: option.splits WriteFile_outcome.splits Run_outcome.splits prod.splits)

lemma invoke_registry:
  "registry (snd (invokeTemporaryScript e content w)) = registry w"
  "openKeys (snd (invokeTemporaryScript e content w)) = openKeys w"
  by (simp_all add: invokeTemporaryScript_def WriteFile_def Run_def Remove_def Let_def
      split: option.splits WriteFile_outcome.splits Run_outcome.splits prod.splits)

lemma invoke_files:
  "fst (uuid_NewV4 e) = Some u \<Longrightarrow>
   files (snd (invokeTemporaryScript e content w)) = (files w)(tempFile e u := None)"
  by (auto simp add: invokeTemporaryScript_def WriteFile_def Run_def Remove_def Let_def
      split: option.splits WriteFile_outcome.splits Run_outcome.splits prod.splits)

lemma Push_invoke:
  "\<exists>w1. registry w1 = registry (snd (Push e tmpl n w)) \<and> Push e tmpl n w = invokeTemporaryScript e (fst (buildXML tmpl n)) w1"
  by (auto simp add: Push_def Let_def invoke_registry split: prod.splits)

lemma Push_fst:
  "fst (Push e tmpl n w) = fst (invokeTemporaryScript e (fst (buildXML tmpl n)) w')"
  by (simp add: Push_def Let_def invoke_fst split: prod.splits)

lemma Push_registry_persist:
  assumes "Persist n" "CreateKey_refused e = None" "SetDWordValue_refused e = None"
  shows "registry (snd (Push e tmpl n w)) =
           (registry w)(settingsPath @ AppID n \<mapsto>
              (case registry w (settingsPath @ AppID n) of None \<Rightarrow> Map.empty | Some vals \<Rightarrow> vals)
                (''ShowInActionCenter'' \<mapsto> 1))"
    and "openKeys (snd (Push e tmpl n w)) = openKeys w"
  using assms
  by (auto simp add: Push_def Let_def invoke_registry CreateKey_def SetDWordValue_def Close_def
      filter_freshKey freshKey_pos split: prod.splits option.splits)

lemma Push_registry_delete:
  assumes "\<not> Persist n" "DeleteKey_refused e = None"
  shows "registry (snd (Push e tmpl n w)) = (registry w)(settingsPath @ AppID n := None)"
    and "openKeys (snd (Push e tmpl n w)) = openKeys w"
  using assms
  by (auto simp add: Push_def Let_def invoke_registry DeleteKey_def
      split: prod.splits option.splits)

text \<open>
  One run on a machine on which everything works: the script is written, the
  interpreter is run on the file, and the file is gone afterwards.
\<close>

lemma invokeTemporaryScript_example:
  "invokeTemporaryScript goodEnv ''exit 0'' emptyWorld =
     (Return None,
      emptyWorld\<lparr>executed :=
        [([''PowerShell'', ''-ExecutionPolicy'', ''Bypass'', ''-File'',
           ''C:'' @ backslash @ ''Temp'' @ backslash @
           ''6ba7b810-9dad-41d1-80b4-00c04fd430c8.ps1''],
          ''exit 0'')]\<rparr>)"
  by (simp add: invokeTemporaryScript_def WriteFile_def Run_def Remove_def Let_def goodEnv_def
      emptyWorld_def tempFile_def filepath_Join_def backslash_def)

section \<open>Claims about Push and invokeTemporaryScript\<close>

text \<open>
  Claim C2. \<open>Push\<close> returns what \<open>invokeTemporaryScript\<close> returns for the rendered
  script, unchanged: the result does not depend on the registry or on what the registry
  calls answer, and when rendering fails the error is dropped and the script that is
  invoked is the empty string.
\<close>

theorem push_returns_invocation_result:
  "fst (Push e tmpl n w) = fst (invokeTemporaryScript e (fst (buildXML tmpl n)) w) \<and>
   (\<exists>w1. Push e tmpl n w = invokeTemporaryScript e (fst (buildXML tmpl n)) w1) \<and>
   fst (Push (e\<lparr>CreateKey_refused := c, SetDWordValue_refused := s, DeleteKey_refused := d\<rparr>)
          tmpl n w) = fst (Push e tmpl n w) \<and>
   (snd (buildXML tmpl n) \<noteq> None \<longrightarrow>
      fst (buildXML tmpl n) = [] \<and> (\<exists>w1. Push e tmpl n w = invokeTemporaryScript e [] w1))"
proof (intro conjI impI)
  show "fst (Push e tmpl n w) = fst (invokeTemporaryScript e (fst (buildXML tmpl n)) w)"
    by (rule Push_fst)
  show ex: "\<exists>w1. Push e tmpl n w = invokeTemporaryScript e (fst (buildXML tmpl n)) w1"
    using Push_invoke [of e tmpl n w] by blast
  show "fst (Push (e\<lparr>CreateKey_refused := c, SetDWordValue_refused := s, DeleteKey_refused := d\<rparr>)
          tmpl n w) = fst (Push e tmpl n w)"
    by (simp add: Push_fst [where w' = w] invoke_fst split: option.splits WriteFile_outcome.splits)
  assume "snd (buildXML tmpl n) \<noteq> None"
  then show empty: "fst (buildXML tmpl n) = []"
    by (simp add: buildXML_def split: sum.splits)
  with ex show "\<exists>w1. Push e tmpl n w = invokeTemporaryScript e [] w1"
    by simp
qed

theorem push_returns_invocation_result_witness:
  "snd (buildXML [ActionNode ''Missing''] exampleNotification) \<noteq> None \<and>
   fst (buildXML [ActionNode ''Missing''] exampleNotification) = [] \<and>
   (\<exists>w1. Push (goodEnv\<lparr>Run_outcome := Exited 1\<rparr>) [ActionNode ''Missing''] exampleNotification emptyWorld =
      invokeTemporaryScript (goodEnv\<lparr>Run_outcome := Exited 1\<rparr>) [] w1) \<and>
   fst (Push (goodEnv\<lparr>Run_outcome := Exited 1\<rparr>) [ActionNode ''Missing''] exampleNotification emptyWorld) =
     Return (Some (ExitError 1))"
proof -
  have r: "snd (buildXML [ActionNode ''Missing''] exampleNotification) \<noteq> None"
    by (simp add: buildXML_def Execute_def reflectNotification_def)
  have "fst (invokeTemporaryScript (goodEnv\<lparr>Run_outcome := Exited 1\<rparr>) [] emptyWorld) =
      Return (Some (ExitError 1))"
    by (simp add: invoke_fst goodEnv_def)
  with r push_returns_invocation_result
    [of "goodEnv\<lparr>Run_outcome := Exited 1\<rparr>" "[ActionNode ''Missing'']" exampleNotification
        emptyWorld None None None]
  show ?thesis by simp
qed

text \<open>
  Claim C6. When \<open>invokeTemporaryScript\<close> returns, the temporary file is gone and every
  other file is as before, whether the write failed, the interpreter did not start, it
  exited with an error or all went well: the outcomes of the write and of the run are
  arbitrary here. When the call panics no file was touched.
\<close>

theorem temp_file_removed:
  "files (snd (invokeTemporaryScript e content w)) =
     (case fst (uuid_NewV4 e) of
        None \<Rightarrow> files w
      | Some u \<Rightarrow> (files w)(tempFile e u := None))"
  by (cases "fst (uuid_NewV4 e)") (simp_all add: invoke_files, simp add: invokeTemporaryScript_def)

text \<open>
  Claim C7, as amended. \<open>invokeTemporaryScript\<close> returns an error exactly when the write
  of the file fails, or the interpreter cannot be started, or it exits with a status
  other than 0; on status 0 it returns \<^verbatim>\<open>nil\<close>. On another status the error is the
  \<^verbatim>\<open>*exec.ExitError\<close> of \<^verbatim>\<open>Run\<close>, returned as it is, and it carries the status.
\<close>

theorem invocation_error_iff:
  assumes "fst (uuid_NewV4 e) = Some u"
  shows "\<exists>r. fst (invokeTemporaryScript e content w) = Return r \<and>
     (r \<noteq> None \<longleftrightarrow>
        WriteFile_outcome e \<noteq> Written \<or> (\<exists>err. Run_outcome e = NotStarted err) \<or>
        (\<exists>s. Run_outcome e = Exited s \<and> s \<noteq> 0)) \<and>
     (WriteFile_outcome e = Written \<and> Run_outcome e = Exited 0 \<longrightarrow> r = None) \<and>
     (\<forall>s. WriteFile_outcome e = Written \<and> Run_outcome e = Exited s \<and> s \<noteq> 0 \<longrightarrow>
          r = Some (ExitError s))"
  using assms
  by (auto simp add: invoke_fst split: WriteFile_outcome.splits Run_outcome.splits)

theorem invocation_error_iff_witness:
  "fst (uuid_NewV4 (goodEnv\<lparr>Run_outcome := Exited 3\<rparr>)) = Some ''6ba7b810-9dad-41d1-80b4-00c04fd430c8'' \<and>
   WriteFile_outcome (goodEnv\<lparr>Run_outcome := Exited 3\<rparr>) = Written \<and>
   Run_outcome (goodEnv\<lparr>Run_outcome := Exited 3\<rparr>) = Exited 3 \<and>
   fst (invokeTemporaryScript (goodEnv\<lparr>Run_outcome := Exited 3\<rparr>) ''exit 3'' emptyWorld) =
     Return (Some (ExitError 3))"
proof -
  have u: "fst (uuid_NewV4 (goodEnv\<lparr>Run_outcome := Exited 3\<rparr>)) = Some ''6ba7b810-9dad-41d1-80b4-00c04fd430c8''"
    by (simp add: goodEnv_def)
  from invocation_error_iff [OF u, of "''exit 3''" emptyWorld] u
  show ?thesis by (auto simp add: goodEnv_def)
qed

text \<open>
  Claim C7 as stated says that the exit status is not exposed to the caller. Two runs
  that differ in the exit status only return different errors.
\<close>

theorem exit_status_exposed:
  "fst (invokeTemporaryScript (goodEnv\<lparr>Run_outcome := Exited 1\<rparr>) ''exit 1'' emptyWorld) =
     Return (Some (ExitError 1)) \<and>
   fst (invokeTemporaryScript (goodEnv\<lparr>Run_outcome := Exited 2\<rparr>) ''exit 1'' emptyWorld) =
     Return (Some (ExitError 2)) \<and>
   fst (invokeTemporaryScript (goodEnv\<lparr>Run_outcome := Exited 1\<rparr>) ''exit 1'' emptyWorld) \<noteq>
   fst (invokeTemporaryScript (goodEnv\<lparr>Run_outcome := Exited 2\<rparr>) ''exit 1'' emptyWorld)"
  by (simp add: invokeTemporaryScript_def WriteFile_def Run_def Remove_def Let_def goodEnv_def
      emptyWorld_def tempFile_def filepath_Join_def backslash_def)

text \<open>
  Claim C8. When the registry accepts the calls, a \<open>Push\<close> with \<open>Persist\<close> leaves the key
  of the \<open>AppID\<close> under the settings path with \<^verbatim>\<open>ShowInActionCenter\<close> set to 1, keeps
  what else the key held, leaves no handle open, and a second such \<open>Push\<close> changes
  nothing more; a \<open>Push\<close> without \<open>Persist\<close> leaves no such key, and returns what the
  invocation returns also when there was none to delete; so after a \<open>Push\<close> with
  \<open>Persist\<close> and one without for the same \<open>AppID\<close> the key is gone.
\<close>

theorem persistence_flag:
  "(Persist n \<longrightarrow> CreateKey_refused e = None \<longrightarrow> SetDWordValue_refused e = None \<longrightarrow>
      registry (snd (Push e tmpl n w)) =
        (registry w)(settingsPath @ AppID n \<mapsto>
           (case registry w (settingsPath @ AppID n) of None \<Rightarrow> Map.empty | Some vals \<Rightarrow> vals)
             (''ShowInActionCenter'' \<mapsto> 1)) \<and>
      openKeys (snd (Push e tmpl n w)) = openKeys w \<and>
      registry (snd (Push e tmpl n (snd (Push e tmpl n w)))) = registry (snd (Push e tmpl n w))) \<and>
   (\<not> Persist n \<longrightarrow> DeleteKey_refused e = None \<longrightarrow>
      registry (snd (Push e tmpl n w)) = (registry w)(settingsPath @ AppID n := None) \<and>
      fst (Push e tmpl n w) = fst (invokeTemporaryScript e (fst (buildXML tmpl n)) w)) \<and>
   (CreateKey_refused e = None \<longrightarrow> SetDWordValue_refused e = None \<longrightarrow>
    DeleteKey_refused e' = None \<longrightarrow>
      registry (snd (Push e' tmpl (n\<lparr>Persist := False\<rparr>)
                  (snd (Push e tmpl (n\<lparr>Persist := True\<rparr>) w))))
        (settingsPath @ AppID n) = None)"
proof (intro conjI impI)
  assume h: "Persist n" "CreateKey_refused e = None" "SetDWordValue_refused e = None"
  then show r1: "registry (snd (Push e tmpl n w)) =
        (registry w)(settingsPath @ AppID n \<mapsto>
           (case registry w (settingsPath @ AppID n) of None \<Rightarrow> Map.empty | Some vals \<Rightarrow> vals)
             (''ShowInActionCenter'' \<mapsto> 1))"
    by (rule Push_registry_persist)
  from h show "openKeys (snd (Push e tmpl n w)) = openKeys w"
    by (rule Push_registry_persist)
  from h have "registry (snd (Push e tmpl n (snd (Push e tmpl n w)))) =
        (registry (snd (Push e tmpl n w)))(settingsPath @ AppID n \<mapsto>
           (case registry (snd (Push e tmpl n w)) (settingsPath @ AppID n) of
              None \<Rightarrow> Map.empty | Some vals \<Rightarrow> vals)
             (''ShowInActionCenter'' \<mapsto> 1))"
    by (rule Push_registry_persist)
  then show "registry (snd (Push e tmpl n (snd (Push e tmpl n w)))) =
      registry (snd (Push e tmpl n w))"
    by (simp add: r1)
next
  assume "\<not> Persist n" "DeleteKey_refused e = None"
  then show "registry (snd (Push e tmpl n w)) = (registry w)(settingsPath @ AppID n := None)"
    by (rule Push_registry_delete)
next
  show "fst (Push e tmpl n w) = fst (invokeTemporaryScript e (fst (buildXML tmpl n)) w)"
    by (rule Push_fst)
next
  assume "CreateKey_refused e = None" "SetDWordValue_refused e = None" "DeleteKey_refused e' = None"
  then show "registry (snd (Push e' tmpl (n\<lparr>Persist := False\<rparr>)
                  (snd (Push e tmpl (n\<lparr>Persist := True\<rparr>) w))))
        (settingsPath @ AppID n) = None"
    by (simp add: Push_registry_delete Push_registry_persist)
qed

theorem persistence_flag_witness:
  "Persist (exampleNotification\<lparr>Persist := True\<rparr>) \<and> \<not> Persist exampleNotification \<and>
   CreateKey_refused goodEnv = None \<and> SetDWordValue_refused goodEnv = None \<and>
   DeleteKey_refused goodEnv = None \<and>
   registry (snd (Push goodEnv toastTemplate (exampleNotification\<lparr>Persist := True\<rparr>) emptyWorld))
     (settingsPath @ ''Example App'') = Some [''ShowInActionCenter'' \<mapsto> 1] \<and>
   openKeys (snd (Push goodEnv toastTemplate (exampleNotification\<lparr>Persist := True\<rparr>) emptyWorld)) = [] \<and>
   registry (snd (Push goodEnv toastTemplate exampleNotification emptyWorld))
     (settingsPath @ ''Example App'') = None \<and>
   registry (snd (Push goodEnv toastTemplate (exampleNotification\<lparr>Persist := False\<rparr>)
               (snd (Push goodEnv toastTemplate (exampleNotification\<lparr>Persist := True\<rparr>) emptyWorld))))
     (settingsPath @ ''Example App'') = None"
  using persistence_flag [of "exampleNotification\<lparr>Persist := True\<rparr>" goodEnv toastTemplate
      emptyWorld goodEnv]
    persistence_flag [of exampleNotification goodEnv toastTemplate emptyWorld goodEnv]
  by (simp add: exampleNotification_def goodEnv_def emptyWorld_def)

lemma nil_identifier_panics:
  "fst (invokeTemporaryScript (e\<lparr>uuid_NewV4 := (None, err)\<rparr>) content w) = Panic"
  by (simp add: invokeTemporaryScript_def)


end
